theory Spec2Isabelle
  imports Main
begin

section \<open>Shared vocabulary of the step forms\<close>

text \<open>
  The radio groups of the intake forms carry the string union \<^verbatim>\<open>'Yes' | 'No'\<close>.
\<close>

datatype yes_no = Yes | No

text \<open>
  A field name of the form library is a dotted path such as \<^verbatim>\<open>charges.0.personName\<close>;
  the schema library reports the same path as an array of keys and indices.
\<close>

datatype seg = Key string | Idx nat

type_synonym path = "seg list"

text \<open>
  A validation message is either a text written in the source or the default text of the
  schema library, which the source does not fix.
\<close>

datatype message = Msg string | LibraryDefault

type_synonym field_error = "path \<times> message"

text \<open>
  What a submit handler does to the outside world, in the order it does it: a blocking
  \<^verbatim>\<open>alert(..)\<close>, the host callbacks \<^verbatim>\<open>updateData(..)\<close> and \<^verbatim>\<open>nextStep()\<close>, or a
  \<^verbatim>\<open>toast(..)\<close> showing the submitted values.
\<close>

datatype 'd effect = Alert string | UpdateData 'd | NextStep | Toast 'd

text \<open>
  \<^verbatim>\<open>form.handleSubmit(onSubmit)\<close>: the form is validated first; \<^verbatim>\<open>onSubmit\<close> runs on
  the validated values only when no field error was found, otherwise the errors are put
  on the form and nothing else happens.
\<close>

definition handleSubmit ::
  "('v \<Rightarrow> field_error list + 'd) \<Rightarrow> ('d \<Rightarrow> 'd effect list) \<Rightarrow> 'v
    \<Rightarrow> field_error list \<times> 'd effect list" where
  "handleSubmit resolve onSubmit values =
     (case resolve values of
        Inl errs \<Rightarrow> (errs, [])
      | Inr d \<Rightarrow> ([], onSubmit d))"

text \<open>The operations of \<^verbatim>\<open>useFieldArray\<close> on the ordered list of entries.\<close>

definition append_field :: "'a \<Rightarrow> 'a list \<Rightarrow> 'a list" where
  "append_field v fields = fields @ [v]"

definition remove :: "nat \<Rightarrow> 'a list \<Rightarrow> 'a list" where
  "remove index fields = take index fields @ drop (Suc index) fields"

text \<open>
  \<^verbatim>\<open>fields.map((field, index) => ..)\<close>: every entry is rendered together with its
  current position.
\<close>

definition indexed :: "'a list \<Rightarrow> (nat \<times> 'a) list" where
  "indexed fields = zip [0..<length fields] fields"

text \<open>
  The number shown in an entry's heading, \<^verbatim>\<open>{index + 1}\<close>, for each rendered entry in
  order.
\<close>

definition visible_indices :: "'a list \<Rightarrow> nat list" where
  "visible_indices fields = map (\<lambda>(index, field). index + 1) (indexed fields)"

text \<open>
  \<^verbatim>\<open>register(name)\<close> on a text input that has just been mounted: when the form holds no
  value under that name, the value of the input itself, the empty string, is written
  into the form; a value that is there is kept and shown. Inputs that leave the screen
  are only marked as not mounted, and their values stay in the form (no form of this
  repository sets \<^verbatim>\<open>shouldUnregister\<close>).
\<close>

definition register_mount :: "string option \<Rightarrow> string option" where
  "register_mount x = (case x of None \<Rightarrow> Some [] | Some s \<Rightarrow> Some s)"

subsection \<open>Strings and regular expressions\<close>

text \<open>
  Strings are lists of code units below 256. \<^verbatim>\<open>\s\<close> and \<^verbatim>\<open>trim()\<close> use the same class
  of white space: tab, line feed, vertical tab, form feed, carriage return, space and
  the no-break space.
\<close>

definition isSpace :: "char \<Rightarrow> bool" where
  "isSpace c = (of_char c \<in> {9, 10, 11, 12, 13, 32, 160 :: nat})"

definition isDigit :: "char \<Rightarrow> bool" where
  "isDigit c = (48 \<le> (of_char c :: nat) \<and> (of_char c :: nat) \<le> 57)"

definition trim :: "string \<Rightarrow> string" where
  "trim s = rev (dropWhile isSpace (rev (dropWhile isSpace s)))"

datatype regex =
    Never
  | Eps
  | Chr char
  | Digit
  | Space
  | Seq regex regex
  | Alt regex regex
  | Star regex

fun nullable :: "regex \<Rightarrow> bool" where
  "nullable Never = False"
| "nullable Eps = True"
| "nullable (Chr c) = False"
| "nullable Digit = False"
| "nullable Space = False"
| "nullable (Seq r s) = (nullable r \<and> nullable s)"
| "nullable (Alt r s) = (nullable r \<or> nullable s)"
| "nullable (Star r) = True"

fun deriv :: "char \<Rightarrow> regex \<Rightarrow> regex" where
  "deriv c Never = Never"
| "deriv c Eps = Never"
| "deriv c (Chr d) = (if c = d then Eps else Never)"
| "deriv c Digit = (if isDigit c then Eps else Never)"
| "deriv c Space = (if isSpace c then Eps else Never)"
| "deriv c (Seq r s) =
     (if nullable r then Alt (Seq (deriv c r) s) (deriv c s) else Seq (deriv c r) s)"
| "deriv c (Alt r s) = Alt (deriv c r) (deriv c s)"
| "deriv c (Star r) = Seq (deriv c r) (Star r)"

text \<open>
  \<^verbatim>\<open>/^r$/.test(s)\<close>: with both anchors and no flags the test succeeds exactly when the
  whole string is in the language of \<^verbatim>\<open>r\<close>.
\<close>

fun test :: "regex \<Rightarrow> string \<Rightarrow> bool" where
  "test r [] = nullable r"
| "test r (c # s) = test (deriv c r) s"

definition Opt :: "regex \<Rightarrow> regex" where
  "Opt r = Alt r Eps"

fun rep :: "regex \<Rightarrow> nat \<Rightarrow> regex" where
  "rep r 0 = Eps"
| "rep r (Suc n) = Seq r (rep r n)"

fun rep_upto :: "regex \<Rightarrow> nat \<Rightarrow> regex" where
  "rep_upto r 0 = Eps"
| "rep_upto r (Suc n) = Opt (Seq r (rep_upto r n))"

text \<open>\<^verbatim>\<open>r{m,n}\<close>\<close>

definition rep_between :: "regex \<Rightarrow> nat \<Rightarrow> nat \<Rightarrow> regex" where
  "rep_between r m n = Seq (rep r m) (rep_upto r (n - m))"

text \<open>The language a regular expression denotes, to state what \<open>test\<close> decides.\<close>

inductive_set kstar :: "string set \<Rightarrow> string set" for A :: "string set" where
  kstar_nil: "[] \<in> kstar A"
| kstar_app: "u \<in> A \<Longrightarrow> v \<in> kstar A \<Longrightarrow> u @ v \<in> kstar A"

fun lang :: "regex \<Rightarrow> string set" where
  "lang Never = {}"
| "lang Eps = {[]}"
| "lang (Chr c) = {[c]}"
| "lang Digit = {[c] | c. isDigit c}"
| "lang Space = {[c] | c. isSpace c}"
| "lang (Seq r s) = {u @ v | u v. u \<in> lang r \<and> v \<in> lang s}"
| "lang (Alt r s) = lang r \<union> lang s"
| "lang (Star r) = kstar (lang r)"

section \<open>Criminal history step\<close>

text \<open>
  One entry of the list of charges. The \<^verbatim>\<open>id\<close> of the source type is the key that
  \<^verbatim>\<open>useFieldArray\<close> generates for rendering; it is not part of the form values.
\<close>

record CriminalCharge =
  personName :: string
  charge :: string
  dateOfOffense :: string
  outcome :: string
  areTheyOnProbation :: yes_no
  probationOfficer :: string
  lengthOfProbation :: string
  startDate :: string
  endDate :: string

record CriminalHistoryFormData =
  hasCriminalOffense :: yes_no
  charges :: "CriminalCharge list"
  isWillingToBackgroundCheck :: yes_no

text \<open>
  The slice of the host's application data that the step reads; every field may be
  absent.
\<close>

record IntakeApplicationDataPlaceholder =
  hasCriminalOffense_opt :: "yes_no option"
  charges_opt :: "CriminalCharge list option"
  isWillingToBackgroundCheck_opt :: "yes_no option"

text \<open>\<^verbatim>\<open>defaultValues\<close>: the initial values, retrieved from the main application data.\<close>

definition criminal_defaultValues ::
  "IntakeApplicationDataPlaceholder \<Rightarrow> CriminalHistoryFormData" where
  "criminal_defaultValues data =
     \<lparr>hasCriminalOffense = (case hasCriminalOffense_opt data of None \<Rightarrow> No | Some v \<Rightarrow> v),
      charges = (case charges_opt data of None \<Rightarrow> [] | Some cs \<Rightarrow> cs),
      isWillingToBackgroundCheck =
        (case isWillingToBackgroundCheck_opt data of None \<Rightarrow> No | Some v \<Rightarrow> v)\<rparr>"

text \<open>A host that has not stored anything for this step yet.\<close>

definition no_data :: IntakeApplicationDataPlaceholder where
  "no_data =
     \<lparr>hasCriminalOffense_opt = None, charges_opt = None, isWillingToBackgroundCheck_opt = None\<rparr>"

text \<open>Template for a new, empty charge entry.\<close>

definition initialCharge :: CriminalCharge where
  "initialCharge =
     \<lparr>personName = [], charge = [], dateOfOffense = [], outcome = [],
      areTheyOnProbation = No, probationOfficer = [], lengthOfProbation = [],
      startDate = [], endDate = []\<rparr>"

text \<open>
  \<^verbatim>\<open>register(name, { required: msg })\<close>: the rule of a mounted input fails when its value
  is the empty string.
\<close>

definition required :: "path \<Rightarrow> string \<Rightarrow> string \<Rightarrow> field_error list" where
  "required name msg v = (if v = [] then [(name, Msg msg)] else [])"

text \<open>
  The inputs that one charge block registers with a rule. The probation officer's input
  is rendered, hence registered, only while that entry's \<^verbatim>\<open>areTheyOnProbation\<close> is
  \<^verbatim>\<open>'Yes'\<close>; the date, length, start and end inputs carry no rule.
\<close>

definition charge_errors :: "nat \<Rightarrow> CriminalCharge \<Rightarrow> field_error list" where
  "charge_errors index c =
     required [Key ''charges'', Idx index, Key ''personName''] ''Person Name is required.''
       (personName c)
     @ required [Key ''charges'', Idx index, Key ''charge''] ''Charge is required.''
       (charge c)
     @ required [Key ''charges'', Idx index, Key ''outcome''] ''Outcome is required.''
       (outcome c)
     @ (if areTheyOnProbation c = Yes
        then required [Key ''charges'', Idx index, Key ''probationOfficer'']
               ''Probation Officer is required.'' (probationOfficer c)
        else [])"

text \<open>
  The charge blocks are rendered only while \<^verbatim>\<open>hasCriminalOffense\<close> is \<^verbatim>\<open>'Yes'\<close>; the
  rules of inputs that are not mounted are not evaluated.
\<close>

definition criminal_errors :: "CriminalHistoryFormData \<Rightarrow> field_error list" where
  "criminal_errors d =
     (if hasCriminalOffense d = Yes
      then concat (map (\<lambda>(index, c). charge_errors index c) (indexed (charges d)))
      else [])"

definition criminal_resolve ::
  "CriminalHistoryFormData \<Rightarrow> field_error list + CriminalHistoryFormData" where
  "criminal_resolve d = (if criminal_errors d = [] then Inr d else Inl (criminal_errors d))"

definition criminal_alert :: string where
  "criminal_alert = ''Please click \"+ Add Offense\" to detail the criminal charges.''"

definition criminal_onSubmit ::
  "CriminalHistoryFormData \<Rightarrow> CriminalHistoryFormData effect list" where
  "criminal_onSubmit currentStepData =
     (if hasCriminalOffense currentStepData = Yes \<and> length (charges currentStepData) = 0
      then [Alert criminal_alert]
      else [UpdateData currentStepData, NextStep])"

definition criminal_submit ::
  "CriminalHistoryFormData \<Rightarrow> field_error list \<times> CriminalHistoryFormData effect list" where
  "criminal_submit = handleSubmit criminal_resolve criminal_onSubmit"

text \<open>
  The handlers of the controls of the criminal history form. Every field of a charge is
  a string from the moment the entry exists, so registering the inputs of a block that
  comes on screen writes nothing into the form.
\<close>

definition setHasCriminalOffense ::
  "yes_no \<Rightarrow> CriminalHistoryFormData \<Rightarrow> CriminalHistoryFormData" where
  "setHasCriminalOffense v d = d\<lparr>hasCriminalOffense := v\<rparr>"

definition addOffense :: "CriminalHistoryFormData \<Rightarrow> CriminalHistoryFormData" where
  "addOffense d = d\<lparr>charges := append_field initialCharge (charges d)\<rparr>"

definition removeCharge :: "nat \<Rightarrow> CriminalHistoryFormData \<Rightarrow> CriminalHistoryFormData" where
  "removeCharge index d = d\<lparr>charges := remove index (charges d)\<rparr>"

text \<open>
  Writing one field of the entry at \<open>index\<close>. The inputs exist only for rendered
  entries, so an index outside the list leaves the values as they are.
\<close>

definition editCharge ::
  "nat \<Rightarrow> (CriminalCharge \<Rightarrow> CriminalCharge) \<Rightarrow> CriminalHistoryFormData
    \<Rightarrow> CriminalHistoryFormData" where
  "editCharge index f d =
     (if index < length (charges d)
      then d\<lparr>charges := (charges d)[index := f (charges d ! index)]\<rparr>
      else d)"

definition setAreTheyOnProbation ::
  "nat \<Rightarrow> yes_no \<Rightarrow> CriminalHistoryFormData \<Rightarrow> CriminalHistoryFormData" where
  "setAreTheyOnProbation index v = editCharge index (\<lambda>c. c\<lparr>areTheyOnProbation := v\<rparr>)"

text \<open>
  The positions whose probation-details group is on screen: the charge blocks are
  rendered only under \<^verbatim>\<open>hasCriminalOffense === 'Yes'\<close>, and within a block the group is
  rendered under \<^verbatim>\<open>chargeProbation === 'Yes'\<close>.
\<close>

definition probation_details_visible :: "CriminalHistoryFormData \<Rightarrow> nat list" where
  "probation_details_visible d =
     (if hasCriminalOffense d = Yes
      then map fst (filter (\<lambda>(index, c). areTheyOnProbation c = Yes) (indexed (charges d)))
      else [])"

text \<open>The fields of the probation-details group of one entry.\<close>

definition probation_details :: "CriminalCharge \<Rightarrow> string \<times> string \<times> string \<times> string" where
  "probation_details c = (probationOfficer c, lengthOfProbation c, startDate c, endDate c)"


section \<open>Children step\<close>

record Child =
  name :: string
  birthday :: "int option"
  ssn :: string
  gender :: string
  race :: string
  living :: bool

record ChildrenFormData =
  children :: "Child list"

text \<open>\<^verbatim>\<open>/^\d{3}-\d{2}-\d{4}$/\<close>\<close>

definition ssnRegex :: regex where
  "ssnRegex =
     Seq (rep Digit 3) (Seq (Chr CHR ''-'') (Seq (rep Digit 2) (Seq (Chr CHR ''-'') (rep Digit 4))))"

text \<open>
  The schema of one child. The birthday is a date's time value or \<^verbatim>\<open>undefined\<close>, which
  \<^verbatim>\<open>z.coerce.date()\<close> turns into an invalid date and rejects; \<^verbatim>\<open>name\<close> and \<^verbatim>\<open>race\<close>
  accept every string and \<^verbatim>\<open>living\<close> every boolean.
\<close>

definition child_errors :: "nat \<Rightarrow> Child \<Rightarrow> field_error list" where
  "child_errors index c =
     (if birthday c = None then [([Key ''children'', Idx index, Key ''birthday''], LibraryDefault)]
      else [])
     @ (if \<not> test ssnRegex (ssn c)
        then [([Key ''children'', Idx index, Key ''ssn''], LibraryDefault)] else [])
     @ (if length (gender c) < 1
        then [([Key ''children'', Idx index, Key ''gender''], LibraryDefault)] else [])"

definition children_errors :: "ChildrenFormData \<Rightarrow> field_error list" where
  "children_errors d = concat (map (\<lambda>(index, c). child_errors index c) (indexed (children d)))"

definition children_resolve :: "ChildrenFormData \<Rightarrow> field_error list + ChildrenFormData" where
  "children_resolve d = (if children_errors d = [] then Inr d else Inl (children_errors d))"

definition children_onSubmit :: "ChildrenFormData \<Rightarrow> ChildrenFormData effect list" where
  "children_onSubmit d = [Toast d]"

definition children_submit ::
  "ChildrenFormData \<Rightarrow> field_error list \<times> ChildrenFormData effect list" where
  "children_submit = handleSubmit children_resolve children_onSubmit"

definition newChild :: Child where
  "newChild = \<lparr>name = [], birthday = None, ssn = [], gender = [], race = [], living = False\<rparr>"

text \<open>\<^verbatim>\<open>disabled={fields.length >= 5}\<close> on the Add Child button.\<close>

definition addChild_disabled :: "ChildrenFormData \<Rightarrow> bool" where
  "addChild_disabled d = (length (children d) \<ge> 5)"

text \<open>A click on a disabled button runs no handler.\<close>

definition clickAddChild :: "ChildrenFormData \<Rightarrow> ChildrenFormData" where
  "clickAddChild d =
     (if addChild_disabled d then d else d\<lparr>children := append_field newChild (children d)\<rparr>)"

definition children_defaultValues :: ChildrenFormData where
  "children_defaultValues = \<lparr>children = []\<rparr>"

text \<open>
  What the user can do on the children form: add a child, edit the fields of a rendered
  child, and reset the form to its default values. \<^verbatim>\<open>remove\<close> is taken from
  \<^verbatim>\<open>useFieldArray\<close> but no control calls it.
\<close>

datatype children_event = ClickAddChild | EditChild nat Child | ClickResetChildren

fun children_handle :: "children_event \<Rightarrow> ChildrenFormData \<Rightarrow> ChildrenFormData" where
  "children_handle ClickAddChild d = clickAddChild d"
| "children_handle (EditChild index c) d =
     (if index < length (children d) then d\<lparr>children := (children d)[index := c]\<rparr> else d)"
| "children_handle ClickResetChildren d = children_defaultValues"

section \<open>Financial step\<close>

text \<open>The source names and labels, for iteration.\<close>

datatype income_source =
  childSupport | alimony | wages | stipends | SSI | TCA | helpFromFamilyFriends | Other

definition incomeSources :: "income_source list" where
  "incomeSources =
     [childSupport, alimony, wages, stipends, SSI, TCA, helpFromFamilyFriends, Other]"

fun source_name :: "income_source \<Rightarrow> string" where
  "source_name childSupport = ''childSupport''"
| "source_name alimony = ''alimony''"
| "source_name wages = ''wages''"
| "source_name stipends = ''stipends''"
| "source_name SSI = ''SSI''"
| "source_name TCA = ''TCA''"
| "source_name helpFromFamilyFriends = ''helpFromFamilyFriends''"
| "source_name Other = ''Other''"

fun source_label :: "income_source \<Rightarrow> string" where
  "source_label childSupport = ''child support''"
| "source_label alimony = ''alimony''"
| "source_label wages = ''wages''"
| "source_label stipends = ''stipends''"
| "source_label SSI = ''SSI''"
| "source_label TCA = ''TCA''"
| "source_label helpFromFamilyFriends = ''help from family/friends''"
| "source_label Other = ''Other''"

text \<open>
  Currency format: \<^verbatim>\<open>/^\$?\s*\d{1,3}(?:,?\d{3})*(?:\.\d{2})?$/\<close>, an optional dollar
  sign, white space, one to three digits, groups of three digits with an optional
  comma, and optionally a point and two digits.
\<close>

definition currencyRegex :: regex where
  "currencyRegex =
     Seq (Opt (Chr CHR ''$''))
       (Seq (Star Space)
         (Seq (rep_between Digit 1 3)
           (Seq (Star (Seq (Opt (Chr CHR '','')) (rep Digit 3)))
             (Opt (Seq (Chr CHR ''.'') (rep Digit 2))))))"

text \<open>
  The values of the form. The fields \<^verbatim>\<open>${name}_checked\<close> and \<^verbatim>\<open>${name}_amount\<close> are
  read by source name; both are \<^verbatim>\<open>undefined\<close> until their control writes them.
\<close>

record FinancialValues =
  totalMonthlyIncome :: string
  checked_field :: "income_source \<Rightarrow> bool option"
  amount_field :: "income_source \<Rightarrow> string option"

text \<open>The output of the schema: \<^verbatim>\<open>z.boolean().default(false)\<close> fills in the check boxes.\<close>

record FinancialFormData =
  totalMonthlyIncome_out :: string
  checked_out :: "income_source \<Rightarrow> bool"
  amount_out :: "income_source \<Rightarrow> string option"

definition financial_parse :: "FinancialValues \<Rightarrow> FinancialFormData" where
  "financial_parse v =
     \<lparr>totalMonthlyIncome_out = totalMonthlyIncome v,
      checked_out = (\<lambda>src. case checked_field v src of None \<Rightarrow> False | Some b \<Rightarrow> b),
      amount_out = amount_field v\<rparr>"

definition totalMonthlyIncome_errors :: "string \<Rightarrow> field_error list" where
  "totalMonthlyIncome_errors s =
     (if length s < 1
      then [([Key ''totalMonthlyIncome''], Msg ''Monthly household income is required.'')]
      else [])
     @ (if \<not> test currencyRegex s
        then [([Key ''totalMonthlyIncome''],
               Msg ''Must be a valid currency format (e.g., 1,500.00)'')]
        else [])"

text \<open>One round of the \<^verbatim>\<open>forEach\<close> in \<^verbatim>\<open>superRefine\<close>.\<close>

definition source_issues :: "FinancialFormData \<Rightarrow> income_source \<Rightarrow> field_error list" where
  "source_issues data src =
     (let isChecked = checked_out data src; amount = amount_out data src in
      if isChecked then
        (case amount of
           None \<Rightarrow>
             [([Key (source_name src @ ''_amount'')],
               Msg (''Amount for '' @ source_label src @ '' is required.''))]
         | Some a \<Rightarrow>
             if a = [] \<or> trim a = [] then
               [([Key (source_name src @ ''_amount'')],
                 Msg (''Amount for '' @ source_label src @ '' is required.''))]
             else if \<not> test currencyRegex a then
               [([Key (source_name src @ ''_amount'')], Msg ''Must be a valid currency amount.'')]
             else [])
      else [])"

definition financial_superRefine :: "FinancialFormData \<Rightarrow> field_error list" where
  "financial_superRefine data = concat (map (source_issues data) incomeSources)"

definition financial_errors :: "FinancialValues \<Rightarrow> field_error list" where
  "financial_errors v =
     totalMonthlyIncome_errors (totalMonthlyIncome v) @ financial_superRefine (financial_parse v)"

definition financial_resolve :: "FinancialValues \<Rightarrow> field_error list + FinancialFormData" where
  "financial_resolve v =
     (if financial_errors v = [] then Inr (financial_parse v) else Inl (financial_errors v))"

definition financial_onSubmit :: "FinancialFormData \<Rightarrow> FinancialFormData effect list" where
  "financial_onSubmit data = [Toast data]"

definition financial_submit ::
  "FinancialValues \<Rightarrow> field_error list \<times> FinancialFormData effect list" where
  "financial_submit = handleSubmit financial_resolve financial_onSubmit"

definition financial_defaultValues :: FinancialValues where
  "financial_defaultValues =
     \<lparr>totalMonthlyIncome = [], checked_field = (\<lambda>src. None), amount_field = (\<lambda>src. None)\<rparr>"

definition typeTotalMonthlyIncome :: "string \<Rightarrow> FinancialValues \<Rightarrow> FinancialValues" where
  "typeTotalMonthlyIncome s v = v\<lparr>totalMonthlyIncome := s\<rparr>"

text \<open>
  \<^verbatim>\<open>isChecked(name)\<close>: whether the amount input of a source is rendered. A value that is
  still \<^verbatim>\<open>undefined\<close> renders nothing.
\<close>

definition amount_visible :: "FinancialValues \<Rightarrow> income_source \<Rightarrow> bool" where
  "amount_visible v src = (checked_field v src = Some True)"

text \<open>
  The render that follows a change: every amount input on screen is registered, so an
  amount that is still absent becomes the empty string.
\<close>

definition financial_mount :: "FinancialValues \<Rightarrow> FinancialValues" where
  "financial_mount v =
     v\<lparr>amount_field :=
         (\<lambda>src. if amount_visible v src then register_mount (amount_field v src)
                else amount_field v src)\<rparr>"

text \<open>
  The check box of a source writes its own \<^verbatim>\<open>${name}_checked\<close>; the render then shows
  or hides the amount input of that source.
\<close>

definition setChecked :: "income_source \<Rightarrow> bool \<Rightarrow> FinancialValues \<Rightarrow> FinancialValues" where
  "setChecked src b v = financial_mount (v\<lparr>checked_field := (checked_field v)(src := Some b)\<rparr>)"

text \<open>The amount input of a source exists only while it is rendered.\<close>

definition typeAmount :: "income_source \<Rightarrow> string \<Rightarrow> FinancialValues \<Rightarrow> FinancialValues" where
  "typeAmount src s v =
     (if amount_visible v src then v\<lparr>amount_field := (amount_field v)(src := Some s)\<rparr> else v)"




section \<open>Substance use step\<close>

record SubstanceUseHistoryFormData =
  hasSubstanceHistory :: yes_no
  substances :: "string option"
  lastUseMonth :: "string option"
  lastUseYear :: "string option"
  isCleanAndSober :: yes_no
  sobrietyPlan :: "string option"
  hasInpatientTreatment :: yes_no
  inpatientDetails :: "string option"
  hasSponsor :: yes_no

text \<open>\<^verbatim>\<open>!x || x.trim() === ''\<close>\<close>

definition blank :: "string option \<Rightarrow> bool" where
  "blank x = (case x of None \<Rightarrow> True | Some s \<Rightarrow> s = [] \<or> trim s = [])"

definition substance_errors :: "SubstanceUseHistoryFormData \<Rightarrow> field_error list" where
  "substance_errors data =
     (if hasSubstanceHistory data = Yes then
        (if blank (substances data)
         then [([Key ''substances''], Msg ''Please list the substance(s).'')] else [])
        @ (if blank (lastUseMonth data)
           then [([Key ''lastUseMonth''], Msg ''Month is required.'')] else [])
        @ (if blank (lastUseYear data)
           then [([Key ''lastUseYear''], Msg ''Year is required.'')] else [])
      else [])
     @ (if hasInpatientTreatment data = Yes then
          (if blank (inpatientDetails data)
           then [([Key ''inpatientDetails''],
                  Msg ''Please provide when and where treatment occurred.'')]
           else [])
        else [])
     @ (if isCleanAndSober data = Yes then
          (if blank (sobrietyPlan data)
           then [([Key ''sobrietyPlan''],
                  Msg ''Please describe your plan to stay clean and sober.'')]
           else [])
        else [])"

definition substance_resolve ::
  "SubstanceUseHistoryFormData \<Rightarrow> field_error list + SubstanceUseHistoryFormData" where
  "substance_resolve d = (if substance_errors d = [] then Inr d else Inl (substance_errors d))"

definition substance_onSubmit ::
  "SubstanceUseHistoryFormData \<Rightarrow> SubstanceUseHistoryFormData effect list" where
  "substance_onSubmit data = [Toast data]"

definition substance_submit ::
  "SubstanceUseHistoryFormData
    \<Rightarrow> field_error list \<times> SubstanceUseHistoryFormData effect list" where
  "substance_submit = handleSubmit substance_resolve substance_onSubmit"












definition substance_defaultValues :: SubstanceUseHistoryFormData where
  "substance_defaultValues =
     \<lparr>hasSubstanceHistory = No, substances = None, lastUseMonth = None, lastUseYear = None,
      isCleanAndSober = No, sobrietyPlan = None, hasInpatientTreatment = No,
      inpatientDetails = None, hasSponsor = No\<rparr>"


section \<open>Health step\<close>

record ChronicIllness =
  illness_type :: string
  symptoms :: string
  doctor :: string
  medication :: string
  takingMedsAsPrescribed :: bool
  isManageable :: bool

record Coverage =
  spouse :: bool
  children_covered :: bool

record MonthYear =
  month :: string
  year :: string

datatype mammogram = Mammogram_yes | Mammogram_no | Mammogram_not_applicable

record HealthFormData =
  hasChronicIllness :: bool
  chronicIllnesses :: "ChronicIllness list"
  hasPhysicalDisabilities :: bool
  physicalDisabilitiesExplanation :: string
  hasHealthInsurance :: bool
  healthInsuranceType :: string
  healthInsuranceCoverage :: Coverage
  hasDentalInsurance :: bool
  dentalExamLastYear :: bool
  dentalInsuranceCoverage :: Coverage
  hasRegularFamilyDoctor :: bool
  lastDoctorAppointment :: MonthYear
  lastObGynExam :: MonthYear
  mammogramStatus :: mammogram
  lastMammogram :: MonthYear
  hasMentalIllness :: bool
  receivingMentalHealthTreatment :: bool
  mentalHealthTreatmentExplanation :: string

definition health_defaultValues :: HealthFormData where
  "health_defaultValues =
     \<lparr>hasChronicIllness = False,
      chronicIllnesses = [],
      hasPhysicalDisabilities = False,
      physicalDisabilitiesExplanation = [],
      hasHealthInsurance = False,
      healthInsuranceType = [],
      healthInsuranceCoverage = \<lparr>spouse = False, children_covered = False\<rparr>,
      hasDentalInsurance = False,
      dentalExamLastYear = False,
      dentalInsuranceCoverage = \<lparr>spouse = False, children_covered = False\<rparr>,
      hasRegularFamilyDoctor = False,
      lastDoctorAppointment = \<lparr>month = [], year = []\<rparr>,
      lastObGynExam = \<lparr>month = [], year = []\<rparr>,
      mammogramStatus = Mammogram_not_applicable,
      lastMammogram = \<lparr>month = [], year = []\<rparr>,
      hasMentalIllness = False,
      receivingMentalHealthTreatment = False,
      mentalHealthTreatmentExplanation = []\<rparr>"

definition newIllness :: ChronicIllness where
  "newIllness =
     \<lparr>illness_type = [], symptoms = [], doctor = [], medication = [],
      takingMedsAsPrescribed = False, isManageable = False\<rparr>"

text \<open>\<^verbatim>\<open>z.string().min(1, msg)\<close>\<close>

definition min1 :: "path \<Rightarrow> string \<Rightarrow> string \<Rightarrow> field_error list" where
  "min1 p msg v = (if length v < 1 then [(p, Msg msg)] else [])"

definition illness_errors :: "nat \<Rightarrow> ChronicIllness \<Rightarrow> field_error list" where
  "illness_errors index c =
     min1 [Key ''chronicIllnesses'', Idx index, Key ''type''] ''Type of illness is required''
       (illness_type c)
     @ min1 [Key ''chronicIllnesses'', Idx index, Key ''symptoms''] ''Symptoms are required''
         (symptoms c)
     @ min1 [Key ''chronicIllnesses'', Idx index, Key ''doctor''] ''Doctor name is required''
         (doctor c)
     @ min1 [Key ''chronicIllnesses'', Idx index, Key ''medication'']
         ''Medication details are required'' (medication c)"

text \<open>
  The schema has rules only on the entries of \<^verbatim>\<open>chronicIllnesses\<close>; they apply to every
  entry of the list, whatever \<^verbatim>\<open>hasChronicIllness\<close> says.
\<close>

definition health_errors :: "HealthFormData \<Rightarrow> field_error list" where
  "health_errors d =
     concat (map (\<lambda>(index, c). illness_errors index c) (indexed (chronicIllnesses d)))"

definition health_resolve :: "HealthFormData \<Rightarrow> field_error list + HealthFormData" where
  "health_resolve d = (if health_errors d = [] then Inr d else Inl (health_errors d))"

definition health_onSubmit :: "HealthFormData \<Rightarrow> HealthFormData effect list" where
  "health_onSubmit data = [Toast data]"

definition health_submit :: "HealthFormData \<Rightarrow> field_error list \<times> HealthFormData effect list" where
  "health_submit = handleSubmit health_resolve health_onSubmit"

text \<open>
  The effect that runs after a render: add an initial chronic illness entry when "Yes"
  is selected and the list is empty.
\<close>

definition autoAppend :: "HealthFormData \<Rightarrow> HealthFormData" where
  "autoAppend d =
     (if hasChronicIllness d \<and> length (chronicIllnesses d) = 0
      then d\<lparr>chronicIllnesses := append_field newIllness (chronicIllnesses d)\<rparr>
      else d)"

text \<open>
  The Remove button of an entry is rendered inside the chronic illness block, under
  \<^verbatim>\<open>fields.length > 1\<close>.
\<close>

definition remove_rendered :: "HealthFormData \<Rightarrow> nat \<Rightarrow> bool" where
  "remove_rendered d index =
     (hasChronicIllness d \<and> index < length (chronicIllnesses d)
      \<and> length (chronicIllnesses d) > 1)"

text \<open>What the user can do on the health form, one constructor per control.\<close>

datatype health_event =
    ChooseChronicIllness bool
  | ClickRemove nat
  | ClickAddAnother
  | EditIllness nat ChronicIllness
  | ChoosePhysicalDisabilities bool
  | TypePhysicalDisabilitiesExplanation string
  | ChooseHealthInsurance bool
  | TypeHealthInsuranceType string
  | CheckHealthInsuranceCoverage Coverage
  | ChooseDentalInsurance bool
  | CheckDentalInsuranceCoverage Coverage
  | ChooseDentalExamLastYear bool
  | ChooseRegularFamilyDoctor bool
  | SelectLastDoctorAppointment MonthYear
  | SelectLastObGynExam MonthYear
  | ChooseMammogramStatus mammogram
  | SelectLastMammogram MonthYear
  | ChooseMentalIllness bool
  | ChooseReceivingMentalHealthTreatment bool
  | TypeMentalHealthTreatmentExplanation string
  | ClickReset

text \<open>
  The handler of each control. A control that is not rendered receives no event: the
  values stay as they are.
\<close>

fun health_handle :: "health_event \<Rightarrow> HealthFormData \<Rightarrow> HealthFormData" where
  "health_handle (ChooseChronicIllness b) d = d\<lparr>hasChronicIllness := b\<rparr>"
| "health_handle (ClickRemove index) d =
     (if remove_rendered d index
      then d\<lparr>chronicIllnesses := remove index (chronicIllnesses d)\<rparr> else d)"
| "health_handle ClickAddAnother d =
     (if hasChronicIllness d
      then d\<lparr>chronicIllnesses := append_field newIllness (chronicIllnesses d)\<rparr> else d)"
| "health_handle (EditIllness index c) d =
     (if hasChronicIllness d \<and> index < length (chronicIllnesses d)
      then d\<lparr>chronicIllnesses := (chronicIllnesses d)[index := c]\<rparr> else d)"
| "health_handle (ChoosePhysicalDisabilities b) d = d\<lparr>hasPhysicalDisabilities := b\<rparr>"
| "health_handle (TypePhysicalDisabilitiesExplanation s) d =
     (if hasPhysicalDisabilities d then d\<lparr>physicalDisabilitiesExplanation := s\<rparr> else d)"
| "health_handle (ChooseHealthInsurance b) d = d\<lparr>hasHealthInsurance := b\<rparr>"
| "health_handle (TypeHealthInsuranceType s) d =
     (if hasHealthInsurance d then d\<lparr>healthInsuranceType := s\<rparr> else d)"
| "health_handle (CheckHealthInsuranceCoverage c) d =
     (if hasHealthInsurance d then d\<lparr>healthInsuranceCoverage := c\<rparr> else d)"
| "health_handle (ChooseDentalInsurance b) d = d\<lparr>hasDentalInsurance := b\<rparr>"
| "health_handle (CheckDentalInsuranceCoverage c) d =
     (if hasDentalInsurance d then d\<lparr>dentalInsuranceCoverage := c\<rparr> else d)"
| "health_handle (ChooseDentalExamLastYear b) d = d\<lparr>dentalExamLastYear := b\<rparr>"
| "health_handle (ChooseRegularFamilyDoctor b) d = d\<lparr>hasRegularFamilyDoctor := b\<rparr>"
| "health_handle (SelectLastDoctorAppointment m) d = d\<lparr>lastDoctorAppointment := m\<rparr>"
| "health_handle (SelectLastObGynExam m) d = d\<lparr>lastObGynExam := m\<rparr>"
| "health_handle (ChooseMammogramStatus m) d = d\<lparr>mammogramStatus := m\<rparr>"
| "health_handle (SelectLastMammogram m) d =
     (if mammogramStatus d = Mammogram_yes then d\<lparr>lastMammogram := m\<rparr> else d)"
| "health_handle (ChooseMentalIllness b) d = d\<lparr>hasMentalIllness := b\<rparr>"
| "health_handle (ChooseReceivingMentalHealthTreatment b) d =
     (if hasMentalIllness d then d\<lparr>receivingMentalHealthTreatment := b\<rparr> else d)"
| "health_handle (TypeMentalHealthTreatmentExplanation s) d =
     (if hasMentalIllness d then d\<lparr>mentalHealthTreatmentExplanation := s\<rparr> else d)"
| "health_handle ClickReset d = health_defaultValues"

text \<open>One user event: its handler, the render, then the effect.\<close>

definition health_step :: "health_event \<Rightarrow> HealthFormData \<Rightarrow> HealthFormData" where
  "health_step e d = autoAppend (health_handle e d)"

text \<open>The form after a sequence of events, starting from the state given.\<close>

fun health_run :: "health_event list \<Rightarrow> HealthFormData \<Rightarrow> HealthFormData" where
  "health_run [] d = d"
| "health_run (e # es) d = health_run es (health_step e d)"









section \<open>Sample entries\<close>

text \<open>Filled-in entries, used to run the forms on concrete drafts.\<close>

definition sample_charge :: CriminalCharge where
  "sample_charge =
     \<lparr>personName = ''Jane Doe'', charge = ''Misdemeanor Theft'', dateOfOffense = [],
      outcome = ''Dismissed'', areTheyOnProbation = No, probationOfficer = [],
      lengthOfProbation = [], startDate = [], endDate = []\<rparr>"

definition sample_child :: Child where
  "sample_child =
     \<lparr>name = ''Ann'', birthday = Some 0, ssn = ''123-45-6789'', gender = ''female'',
      race = [], living = True\<rparr>"

definition sample_substance_history :: SubstanceUseHistoryFormData where
  "sample_substance_history =
     \<lparr>hasSubstanceHistory = Yes, substances = Some ''Alcohol'',
      lastUseMonth = Some ''January'', lastUseYear = Some ''2023'',
      isCleanAndSober = Yes, sobrietyPlan = Some ''Attending AA meetings'',
      hasInpatientTreatment = Yes, inpatientDetails = Some ''2020 at Hazelden Betty Ford'',
      hasSponsor = No\<rparr>"

definition sample_illness :: ChronicIllness where
  "sample_illness =
     \<lparr>illness_type = ''Diabetes'', symptoms = ''Fatigue'', doctor = ''Dr. Lee'',
      medication = ''Metformin 500mg twice daily'', takingMedsAsPrescribed = True,
      isManageable = True\<rparr>"





section \<open>Properties\<close>

subsection \<open>Entries and their positions\<close>

lemma set_indexed: "set (indexed xs) = {(i, xs ! i) | i. i < length xs}"
proof -
  have "\<exists>k. i = [0..<length xs] ! k \<and> xs ! i = xs ! k \<and> k < length xs"
    if "i < length xs" for i
    using that by (intro exI[of _ i]) simp
  then show ?thesis
    unfolding indexed_def by (auto simp: set_zip)
qed

lemma indexed_Nil: "indexed [] = []"
  by (simp add: indexed_def)

lemma indexed_single: "indexed [x] = [(0, x)]"
  by (simp add: indexed_def)

lemma concat_map_indexed_Nil:
  assumes "\<And>i x. x \<in> set xs \<Longrightarrow> f i x = []"
  shows "concat (map (\<lambda>(i, x). f i x) (indexed xs)) = []"
proof -
  have "x \<in> set xs" if "(i, x) \<in> set (indexed xs)" for i x
    using that by (auto simp: set_indexed)
  with assms show ?thesis by auto
qed

lemma remove_append_empty: "remove 0 (append_field x []) = []"
  by (simp add: remove_def append_field_def)

lemma length_visible_indices: "length (visible_indices xs) = length xs"
  by (simp add: visible_indices_def indexed_def)

lemma visible_indices_nth: "i < length xs \<Longrightarrow> visible_indices xs ! i = i + 1"
  by (simp add: visible_indices_def indexed_def)

lemma set_probation_details_visible:
  "hasCriminalOffense d = Yes \<Longrightarrow>
   set (probation_details_visible d) =
     {j. j < length (charges d) \<and> areTheyOnProbation (charges d ! j) = Yes}"
  unfolding probation_details_visible_def by (auto simp: set_indexed image_iff)

subsection \<open>The regular expression test decides the language\<close>

text \<open>
  The derivative of an expression by a character denotes the words that may follow
  that character, so running the derivatives along a string and asking for the empty
  word at the end is membership in the language.
\<close>

lemma nullable_iff: "nullable r \<longleftrightarrow> [] \<in> lang r"
  by (induction r) (auto intro: kstar_nil)

lemma kstar_Cons_split:
  assumes "x \<in> kstar A" and "x = c # s"
  shows "\<exists>u v. s = u @ v \<and> c # u \<in> A \<and> v \<in> kstar A"
  using assms
proof (induction arbitrary: s rule: kstar.induct)
  case kstar_nil
  then show ?case by simp
next
  case (kstar_app u v)
  show ?case
  proof (cases u)
    case Nil
    with kstar_app show ?thesis by simp
  next
    case (Cons a u')
    with kstar_app.prems have "a = c" and "s = u' @ v" by simp_all
    with Cons kstar_app.hyps show ?thesis by blast
  qed
qed

lemma kstar_Cons_iff:
  "c # s \<in> kstar A \<longleftrightarrow> (\<exists>u v. s = u @ v \<and> c # u \<in> A \<and> v \<in> kstar A)"
proof
  assume "c # s \<in> kstar A"
  then show "\<exists>u v. s = u @ v \<and> c # u \<in> A \<and> v \<in> kstar A"
    by (rule kstar_Cons_split) simp
next
  assume "\<exists>u v. s = u @ v \<and> c # u \<in> A \<and> v \<in> kstar A"
  then obtain u v where "s = u @ v" "c # u \<in> A" "v \<in> kstar A" by blast
  then show "c # s \<in> kstar A"
    using kstar_app[of "c # u" A v] by simp
qed

lemma lang_deriv: "lang (deriv c r) = {s. c # s \<in> lang r}"
proof (induction r)
  case (Seq r1 r2)
  then show ?case
    by (auto simp: nullable_iff Cons_eq_append_conv)
next
  case (Star r)
  then show ?case
    by (auto simp: kstar_Cons_iff)
qed auto

lemma test_iff_lang: "test r s \<longleftrightarrow> s \<in> lang r"
  by (induction s arbitrary: r) (simp_all add: nullable_iff lang_deriv)

text \<open>
  The expressions of the source on some strings.
\<close>

lemma currency_not_empty: "\<not> test currencyRegex []"
  by code_simp

lemma currency_example: "test currencyRegex ''1,500.00''"
  by code_simp

lemma total_example: "test currencyRegex ''2,000''" by code_simp

lemma abc_not_currency: "\<not> test currencyRegex ''abc''" by code_simp

lemma space_not_currency: "\<not> test currencyRegex '' ''" by code_simp

lemma trim_example: "trim ''1,500.00'' \<noteq> []"
  by code_simp

lemma trim_abc: "trim ''abc'' \<noteq> []" by code_simp

lemma trim_space: "trim '' '' = []" by code_simp

lemma sample_ssn: "test ssnRegex (ssn sample_child)"
  unfolding sample_child_def by code_simp

subsection \<open>When a draft passes validation\<close>

lemma criminal_valid:
  assumes "hasCriminalOffense d = Yes \<longrightarrow>
     (\<forall>c \<in> set (charges d). personName c \<noteq> [] \<and> charge c \<noteq> [] \<and> outcome c \<noteq> []
        \<and> (areTheyOnProbation c = Yes \<longrightarrow> probationOfficer c \<noteq> []))"
  shows "criminal_errors d = []"
proof (cases "hasCriminalOffense d = Yes")
  case True
  with assms have "charge_errors i c = []" if "c \<in> set (charges d)" for i c
    using that by (auto simp: charge_errors_def required_def)
  then show ?thesis
    using True by (simp add: criminal_errors_def concat_map_indexed_Nil)
next
  case False
  then show ?thesis by (simp add: criminal_errors_def)
qed

lemma criminal_submit_ok:
  assumes "criminal_errors d = []" and "hasCriminalOffense d = Yes \<longrightarrow> charges d \<noteq> []"
  shows "criminal_submit d = ([], [UpdateData d, NextStep])"
  using assms
  by (auto simp: criminal_submit_def handleSubmit_def criminal_resolve_def criminal_onSubmit_def)

lemma substance_valid:
  assumes "hasSubstanceHistory d = Yes \<longrightarrow>
             \<not> blank (substances d) \<and> \<not> blank (lastUseMonth d) \<and> \<not> blank (lastUseYear d)"
    and "hasInpatientTreatment d = Yes \<longrightarrow> \<not> blank (inpatientDetails d)"
    and "isCleanAndSober d = Yes \<longrightarrow> \<not> blank (sobrietyPlan d)"
  shows "substance_errors d = []"
  using assms by (simp add: substance_errors_def)

lemma substance_submit_ok:
  "substance_errors d = [] \<Longrightarrow> substance_submit d = ([], [Toast d])"
  by (simp add: substance_submit_def handleSubmit_def substance_resolve_def substance_onSubmit_def)

lemma children_valid:
  assumes "\<forall>c \<in> set (children d). birthday c \<noteq> None \<and> test ssnRegex (ssn c) \<and> gender c \<noteq> []"
  shows "children_errors d = []"
proof -
  from assms have "child_errors i c = []" if "c \<in> set (children d)" for i c
    using that by (cases "gender c") (auto simp: child_errors_def)
  then show ?thesis
    by (simp add: children_errors_def concat_map_indexed_Nil)
qed

lemma children_submit_ok:
  "children_errors d = [] \<Longrightarrow> children_submit d = ([], [Toast d])"
  by (simp add: children_submit_def handleSubmit_def children_resolve_def children_onSubmit_def)

lemma health_valid:
  assumes "\<forall>c \<in> set (chronicIllnesses d).
     illness_type c \<noteq> [] \<and> symptoms c \<noteq> [] \<and> doctor c \<noteq> [] \<and> medication c \<noteq> []"
  shows "health_errors d = []"
proof -
  from assms have "illness_errors i c = []" if "c \<in> set (chronicIllnesses d)" for i c
    using that by (auto simp: illness_errors_def min1_def)
  then show ?thesis
    by (simp add: health_errors_def concat_map_indexed_Nil)
qed

lemma health_submit_ok:
  "health_errors d = [] \<Longrightarrow> health_submit d = ([], [Toast d])"
  by (simp add: health_submit_def handleSubmit_def health_resolve_def health_onSubmit_def)

lemma wages_in_incomeSources: "wages \<in> set incomeSources"
  by (simp add: incomeSources_def)

lemma source_issues_unchecked:
  "\<not> checked_out data src \<Longrightarrow> source_issues data src = []"
  by (simp add: source_issues_def)

lemma source_issues_ok:
  "amount_out data src = Some a \<Longrightarrow> trim a \<noteq> [] \<Longrightarrow> test currencyRegex a \<Longrightarrow>
   source_issues data src = []"
  by (auto simp: source_issues_def Let_def trim_def)

lemma source_issues_blank:
  "checked_out data src \<Longrightarrow> blank (amount_out data src) \<Longrightarrow>
   source_issues data src =
     [([Key (source_name src @ ''_amount'')],
       Msg (''Amount for '' @ source_label src @ '' is required.''))]"
  by (auto simp: source_issues_def Let_def blank_def split: option.splits)

lemma source_issues_format:
  "checked_out data src \<Longrightarrow> amount_out data src = Some a \<Longrightarrow> trim a \<noteq> [] \<Longrightarrow>
   \<not> test currencyRegex a \<Longrightarrow>
   source_issues data src =
     [([Key (source_name src @ ''_amount'')], Msg ''Must be a valid currency amount.'')]"
  by (auto simp: source_issues_def Let_def trim_def)

lemma source_issues_in_errors:
  "src \<in> set incomeSources \<Longrightarrow> e \<in> set (source_issues (financial_parse v) src) \<Longrightarrow>
   e \<in> set (financial_errors v)"
  by (auto simp: financial_errors_def financial_superRefine_def)

lemma financial_submit_blocked:
  "financial_errors v \<noteq> [] \<Longrightarrow> financial_submit v = (financial_errors v, [])"
  by (simp add: financial_submit_def handleSubmit_def financial_resolve_def)

lemma financial_submit_ok:
  "financial_errors v = [] \<Longrightarrow> financial_submit v = ([], [Toast (financial_parse v)])"
  by (simp add: financial_submit_def handleSubmit_def financial_resolve_def financial_onSubmit_def)

lemma fst_financial_submit: "fst (financial_submit v) = financial_errors v"
  by (simp add: financial_submit_def handleSubmit_def financial_resolve_def)

lemma financial_valid:
  assumes "test currencyRegex (totalMonthlyIncome v)"
    and "\<And>src. checked_field v src = Some True \<Longrightarrow>
          \<exists>a. amount_field v src = Some a \<and> trim a \<noteq> [] \<and> test currencyRegex a"
  shows "financial_errors v = []"
proof -
  have total: "totalMonthlyIncome_errors (totalMonthlyIncome v) = []"
    using assms(1) currency_not_empty
    by (cases "totalMonthlyIncome v") (auto simp: totalMonthlyIncome_errors_def)
  have "source_issues (financial_parse v) src = []" for src
  proof (cases "checked_field v src = Some True")
    case True
    then obtain a where "amount_field v src = Some a" "trim a \<noteq> []" "test currencyRegex a"
      using assms(2) by blast
    then show ?thesis
      by (intro source_issues_ok[of _ _ a]) (simp_all add: financial_parse_def)
  next
    case False
    then have "\<not> checked_out (financial_parse v) src"
      by (auto simp: financial_parse_def split: option.splits)
    then show ?thesis by (rule source_issues_unchecked)
  qed
  then have "financial_superRefine (financial_parse v) = []"
    by (simp add: financial_superRefine_def)
  with total show ?thesis by (simp add: financial_errors_def)
qed

lemma wages_issue_blocks:
  assumes "source_issues (financial_parse v) wages = [e]"
  shows "e \<in> set (fst (financial_submit v)) \<and> snd (financial_submit v) = []"
proof -
  have mem: "e \<in> set (financial_errors v)"
    using assms source_issues_in_errors[OF wages_in_incomeSources, of e v] by simp
  then have "financial_errors v \<noteq> []" by auto
  with mem show ?thesis by (simp add: financial_submit_blocked)
qed

lemma source_amount_key_inj:
  "source_name s @ ''_amount'' = source_name src @ ''_amount'' \<Longrightarrow> s = src"
  by (cases s; cases src) simp_all

lemma source_issues_path:
  "e \<in> set (source_issues data s) \<Longrightarrow> checked_out data s \<and> fst e = [Key (source_name s @ ''_amount'')]"
  by (auto simp: source_issues_def Let_def split: option.splits if_splits)

lemma total_path:
  "e \<in> set (totalMonthlyIncome_errors t) \<Longrightarrow> fst e = [Key ''totalMonthlyIncome'']"
  by (auto simp: totalMonthlyIncome_errors_def split: if_splits)

lemma total_not_amount: "''totalMonthlyIncome'' \<noteq> source_name src @ ''_amount''"
  by (cases src) simp_all

lemma unchecked_no_error:
  assumes "checked_field v src \<noteq> Some True"
  shows "[Key (source_name src @ ''_amount'')] \<notin> fst ` set (financial_errors v)"
proof
  assume "[Key (source_name src @ ''_amount'')] \<in> fst ` set (financial_errors v)"
  then obtain e where e: "e \<in> set (financial_errors v)"
    and p: "fst e = [Key (source_name src @ ''_amount'')]" by force
  from e consider "e \<in> set (totalMonthlyIncome_errors (totalMonthlyIncome v))"
    | s where "e \<in> set (source_issues (financial_parse v) s)"
    by (auto simp: financial_errors_def financial_superRefine_def)
  then show False
  proof cases
    case 1
    with p show False using total_path[of e] total_not_amount[of src] by simp
  next
    case (2 s)
    then have c: "checked_out (financial_parse v) s"
      and "fst e = [Key (source_name s @ ''_amount'')]"
      using source_issues_path by blast+
    with p have "s = src" using source_amount_key_inj by simp
    with c assms show False
      by (auto simp: financial_parse_def split: option.splits)
  qed
qed

lemma unchecked_amount_irrelevant:
  assumes "checked_field v src \<noteq> Some True"
  shows "financial_errors (v\<lparr>amount_field := (amount_field v)(src := x)\<rparr>) = financial_errors v"
proof -
  let ?v = "v\<lparr>amount_field := (amount_field v)(src := x)\<rparr>"
  have "source_issues (financial_parse ?v) s = source_issues (financial_parse v) s" for s
    using assms
    by (cases "s = src") (auto simp: source_issues_def financial_parse_def split: option.splits)
  then have "source_issues (financial_parse ?v) = source_issues (financial_parse v)"
    by (rule ext)
  then show ?thesis
    by (simp add: financial_errors_def financial_superRefine_def)
qed

subsection \<open>The chronic illness list\<close>

lemma autoAppend_inv:
  "hasChronicIllness (autoAppend d) \<longrightarrow> chronicIllnesses (autoAppend d) \<noteq> []"
  by (simp add: autoAppend_def append_field_def)

lemma health_run_inv:
  "(hasChronicIllness d \<longrightarrow> chronicIllnesses d \<noteq> []) \<Longrightarrow>
   hasChronicIllness (health_run es d) \<longrightarrow> chronicIllnesses (health_run es d) \<noteq> []"
proof (induction es arbitrary: d)
  case Nil
  then show ?case by simp
next
  case (Cons e es)
  show ?case
    unfolding health_run.simps
    by (rule Cons.IH) (simp add: health_step_def autoAppend_inv)
qed

lemma remove_keeps_nonempty:
  assumes "hasChronicIllness d" and "chronicIllnesses d \<noteq> []"
  shows "chronicIllnesses (health_handle (ClickRemove i) d) \<noteq> []"
proof (cases "remove_rendered d i")
  case True
  then have "length (remove i (chronicIllnesses d)) = length (chronicIllnesses d) - 1"
    by (auto simp: remove_def remove_rendered_def)
  with True show ?thesis by (auto simp: remove_rendered_def)
next
  case False
  with assms show ?thesis by simp
qed

subsection \<open>What a hidden block keeps\<close>



















subsection \<open>Submitting a valid draft\<close>

text \<open>
  C1, as the code has it. In the criminal-history step, a submit in which every required
  field is populated and every conditional rule is satisfied calls \<^verbatim>\<open>updateData\<close> and
  then \<^verbatim>\<open>nextStep\<close>, each exactly once. The substance-use, children, financial and
  health forms take no host callbacks: such a submit shows one toast with the submitted
  values and calls neither \<^verbatim>\<open>updateData\<close> nor \<^verbatim>\<open>nextStep\<close>.
\<close>

theorem valid_submit_effects:
  assumes "hasCriminalOffense dc = Yes \<longrightarrow> charges dc \<noteq> [] \<and>
     (\<forall>c \<in> set (charges dc). personName c \<noteq> [] \<and> charge c \<noteq> [] \<and> outcome c \<noteq> []
        \<and> (areTheyOnProbation c = Yes \<longrightarrow> probationOfficer c \<noteq> []))"
    and "hasSubstanceHistory ds = Yes \<longrightarrow>
           \<not> blank (substances ds) \<and> \<not> blank (lastUseMonth ds) \<and> \<not> blank (lastUseYear ds)"
    and "hasInpatientTreatment ds = Yes \<longrightarrow> \<not> blank (inpatientDetails ds)"
    and "isCleanAndSober ds = Yes \<longrightarrow> \<not> blank (sobrietyPlan ds)"
    and "\<forall>c \<in> set (children dk).
           birthday c \<noteq> None \<and> test ssnRegex (ssn c) \<and> gender c \<noteq> []"
    and "test currencyRegex (totalMonthlyIncome df)"
    and "\<forall>src. checked_field df src = Some True \<longrightarrow>
           (\<exists>a. amount_field df src = Some a \<and> trim a \<noteq> [] \<and> test currencyRegex a)"
    and "\<forall>c \<in> set (chronicIllnesses dh).
           illness_type c \<noteq> [] \<and> symptoms c \<noteq> [] \<and> doctor c \<noteq> [] \<and> medication c \<noteq> []"
  shows "criminal_submit dc = ([], [UpdateData dc, NextStep])
       \<and> substance_submit ds = ([], [Toast ds])
       \<and> children_submit dk = ([], [Toast dk])
       \<and> financial_submit df = ([], [Toast (financial_parse df)])
       \<and> health_submit dh = ([], [Toast dh])"
proof (intro conjI)
  have "criminal_errors dc = []"
    using assms(1) by (intro criminal_valid) blast
  then show "criminal_submit dc = ([], [UpdateData dc, NextStep])"
    using assms(1) by (intro criminal_submit_ok) blast+
  show "substance_submit ds = ([], [Toast ds])"
    using assms(2-4) by (intro substance_submit_ok substance_valid)
  show "children_submit dk = ([], [Toast dk])"
    using assms(5) by (intro children_submit_ok children_valid)
  show "financial_submit df = ([], [Toast (financial_parse df)])"
    using assms(6,7) by (intro financial_submit_ok financial_valid) blast+
  show "health_submit dh = ([], [Toast dh])"
    using assms(8) by (intro health_submit_ok health_valid)
qed

theorem valid_submit_effects_witness:
  "criminal_submit \<lparr>hasCriminalOffense = Yes, charges = [sample_charge],
       isWillingToBackgroundCheck = Yes\<rparr>
     = ([], [UpdateData \<lparr>hasCriminalOffense = Yes, charges = [sample_charge],
               isWillingToBackgroundCheck = Yes\<rparr>, NextStep])
   \<and> substance_submit sample_substance_history = ([], [Toast sample_substance_history])
   \<and> children_submit \<lparr>children = [sample_child]\<rparr> = ([], [Toast \<lparr>children = [sample_child]\<rparr>])
   \<and> snd (financial_submit (typeAmount wages ''1,500.00''
        (setChecked wages True (typeTotalMonthlyIncome ''2,000'' financial_defaultValues))))
       = [Toast (financial_parse (typeAmount wages ''1,500.00''
        (setChecked wages True (typeTotalMonthlyIncome ''2,000'' financial_defaultValues))))]
   \<and> snd (health_submit (health_step (EditIllness 0 sample_illness)
        (health_step (ChooseChronicIllness True) health_defaultValues)))
       = [Toast (health_step (EditIllness 0 sample_illness)
        (health_step (ChooseChronicIllness True) health_defaultValues))]"
proof -
  let ?dc = "\<lparr>hasCriminalOffense = Yes, charges = [sample_charge],
       isWillingToBackgroundCheck = Yes\<rparr>"
  let ?dk = "\<lparr>children = [sample_child]\<rparr>"
  let ?df = "typeAmount wages ''1,500.00''
        (setChecked wages True (typeTotalMonthlyIncome ''2,000'' financial_defaultValues))"
  let ?dh = "health_step (EditIllness 0 sample_illness)
        (health_step (ChooseChronicIllness True) health_defaultValues)"
  have h1: "hasCriminalOffense ?dc = Yes \<longrightarrow> charges ?dc \<noteq> [] \<and>
     (\<forall>c \<in> set (charges ?dc). personName c \<noteq> [] \<and> charge c \<noteq> [] \<and> outcome c \<noteq> []
        \<and> (areTheyOnProbation c = Yes \<longrightarrow> probationOfficer c \<noteq> []))"
    by (simp add: sample_charge_def)
  have b: "\<not> blank (Some ''Alcohol'')" "\<not> blank (Some ''January'')"
    "\<not> blank (Some ''2023'')" "\<not> blank (Some ''Attending AA meetings'')"
    "\<not> blank (Some ''2020 at Hazelden Betty Ford'')"
    by code_simp+
  have h2: "hasSubstanceHistory sample_substance_history = Yes \<longrightarrow>
           \<not> blank (substances sample_substance_history)
           \<and> \<not> blank (lastUseMonth sample_substance_history)
           \<and> \<not> blank (lastUseYear sample_substance_history)"
    and h3: "hasInpatientTreatment sample_substance_history = Yes
           \<longrightarrow> \<not> blank (inpatientDetails sample_substance_history)"
    and h4: "isCleanAndSober sample_substance_history = Yes
           \<longrightarrow> \<not> blank (sobrietyPlan sample_substance_history)"
    using b by (simp_all add: sample_substance_history_def)
  have h5: "\<forall>c \<in> set (children ?dk).
           birthday c \<noteq> None \<and> test ssnRegex (ssn c) \<and> gender c \<noteq> []"
    using sample_ssn by (simp add: sample_child_def)
  have t: "totalMonthlyIncome ?df = ''2,000''"
    by (simp add: typeAmount_def setChecked_def financial_mount_def register_mount_def typeTotalMonthlyIncome_def amount_visible_def)
  have h6: "test currencyRegex (totalMonthlyIncome ?df)"
    unfolding t by (rule total_example)
  have h7: "\<forall>src. checked_field ?df src = Some True \<longrightarrow>
           (\<exists>a. amount_field ?df src = Some a \<and> trim a \<noteq> [] \<and> test currencyRegex a)"
  proof (intro allI impI)
    fix src assume "checked_field ?df src = Some True"
    then have "src = wages"
      by (simp add: typeAmount_def setChecked_def financial_mount_def register_mount_def typeTotalMonthlyIncome_def amount_visible_def
          financial_defaultValues_def split: if_splits)
    moreover have "amount_field ?df wages = Some ''1,500.00''"
      by (simp add: typeAmount_def setChecked_def financial_mount_def register_mount_def typeTotalMonthlyIncome_def amount_visible_def)
    ultimately show "\<exists>a. amount_field ?df src = Some a \<and> trim a \<noteq> [] \<and> test currencyRegex a"
      using currency_example trim_example by blast
  qed
  have l: "chronicIllnesses ?dh = [sample_illness]"
    by (simp add: health_step_def autoAppend_def append_field_def health_defaultValues_def)
  have h8: "\<forall>c \<in> set (chronicIllnesses ?dh).
           illness_type c \<noteq> [] \<and> symptoms c \<noteq> [] \<and> doctor c \<noteq> [] \<and> medication c \<noteq> []"
    unfolding l by (simp add: sample_illness_def)
  from valid_submit_effects[OF h1 h2 h3 h4 h5 h6 h7 h8] show ?thesis by simp
qed

text \<open>
  C1 as stated fails outside the criminal-history step: the substance-use form with its
  default selections has every required selection made and no conditional rule to
  satisfy, and its submit shows a toast instead of calling \<^verbatim>\<open>updateData\<close> and
  \<^verbatim>\<open>nextStep\<close>.
\<close>

theorem substance_submit_toast_counterexample:
  "substance_errors substance_defaultValues = []
   \<and> snd (substance_submit substance_defaultValues) = [Toast substance_defaultValues]
   \<and> snd (substance_submit substance_defaultValues)
       \<noteq> [UpdateData substance_defaultValues, NextStep]"
  by (simp add: substance_submit_def handleSubmit_def substance_resolve_def
      substance_onSubmit_def substance_errors_def substance_defaultValues_def)

subsection \<open>Criminal history: the empty list of charges\<close>

text \<open>
  C2. In the criminal-history step, a submit of a draft whose \<^verbatim>\<open>hasCriminalOffense\<close> is
  \<^verbatim>\<open>'Yes'\<close> and whose list of charges is empty raises the alert and puts no inline field
  error on the form; \<^verbatim>\<open>updateData\<close> and \<^verbatim>\<open>nextStep\<close> are not called: the alert is the
  only effect. The handler reads the draft and writes nothing to it.
\<close>

theorem criminal_submit_empty_charges_alert:
  assumes "hasCriminalOffense d = Yes" and "charges d = []"
  shows "criminal_submit d = ([], [Alert criminal_alert])"
  using assms
  by (simp add: criminal_submit_def handleSubmit_def criminal_resolve_def
      criminal_errors_def indexed_Nil criminal_onSubmit_def)

theorem criminal_submit_empty_charges_alert_witness:
  "criminal_submit \<lparr>hasCriminalOffense = Yes, charges = [], isWillingToBackgroundCheck = No\<rparr>
     = ([], [Alert criminal_alert])"
  using criminal_submit_empty_charges_alert
    [of "\<lparr>hasCriminalOffense = Yes, charges = [], isWillingToBackgroundCheck = No\<rparr>"]
  by simp

text \<open>
  C3. With \<^verbatim>\<open>hasCriminalOffense\<close> \<^verbatim>\<open>'Yes'\<close> and no entry, the submit is blocked by the
  alert and the list is still empty. After one entry is added and its person name,
  charge and outcome are filled in, with \<^verbatim>\<open>areTheyOnProbation\<close> left at \<^verbatim>\<open>'No'\<close>, the
  submit succeeds although the probation officer, the length of probation and the start
  and end dates of that entry are all empty: none of them is required.
\<close>

theorem criminal_scenario:
  assumes "hasCriminalOffense d = Yes" and "charges d = []"
    and "n \<noteq> []" and "ch \<noteq> []" and "out \<noteq> []"
  shows "criminal_submit d = ([], [Alert criminal_alert]) \<and> length (charges d) = 0
       \<and> (let d' = editCharge 0 (\<lambda>c. c\<lparr>personName := n, charge := ch, outcome := out\<rparr>)
                      (addOffense d)
          in criminal_submit d' = ([], [UpdateData d', NextStep])
             \<and> map areTheyOnProbation (charges d') = [No]
             \<and> map probation_details (charges d') = [([], [], [], [])])"
  using assms
  by (simp add: Let_def criminal_submit_def handleSubmit_def criminal_resolve_def
      criminal_errors_def indexed_Nil indexed_single criminal_onSubmit_def editCharge_def
      addOffense_def append_field_def initialCharge_def charge_errors_def required_def
      probation_details_def)

theorem criminal_scenario_witness:
  "hasCriminalOffense (setHasCriminalOffense Yes (criminal_defaultValues no_data)) = Yes
   \<and> charges (setHasCriminalOffense Yes (criminal_defaultValues no_data)) = []
   \<and> criminal_submit (setHasCriminalOffense Yes (criminal_defaultValues no_data))
       = ([], [Alert criminal_alert])
   \<and> snd (criminal_submit
        (editCharge 0 (\<lambda>c. c\<lparr>personName := ''Jane Doe'', charge := ''Theft'',
                              outcome := ''Dismissed''\<rparr>)
           (addOffense (setHasCriminalOffense Yes (criminal_defaultValues no_data)))))
       = [UpdateData
            (editCharge 0 (\<lambda>c. c\<lparr>personName := ''Jane Doe'', charge := ''Theft'',
                              outcome := ''Dismissed''\<rparr>)
           (addOffense (setHasCriminalOffense Yes (criminal_defaultValues no_data)))), NextStep]"
proof -
  let ?d = "setHasCriminalOffense Yes (criminal_defaultValues no_data)"
  have h1: "hasCriminalOffense ?d = Yes" and h2: "charges ?d = []"
    by (simp_all add: setHasCriminalOffense_def criminal_defaultValues_def no_data_def)
  have h3: "''Jane Doe'' \<noteq> []" and h4: "''Theft'' \<noteq> []" and h5: "''Dismissed'' \<noteq> []"
    by simp_all
  from criminal_scenario[OF h1 h2 h3 h4 h5] h1 h2 show ?thesis
    by (simp add: Let_def)
qed

subsection \<open>Financial: the wages amount\<close>

text \<open>
  C4, as the code has it. With the wages box checked: an amount that is absent, empty
  or white space only yields the required-amount error on \<^verbatim>\<open>wages_amount\<close> and the
  submit is blocked; an amount that is not blank after trimming and does not match the
  currency expression yields the format error on that path and the submit is blocked;
  \<^verbatim>\<open>1,500.00\<close> matches the currency expression, and with it (the total income valid, no
  other box checked) the submit succeeds.
\<close>

theorem financial_wages_scenario:
  assumes "checked_field v1 wages = Some True" and "blank (amount_field v1 wages)"
    and "checked_field v2 wages = Some True" and "amount_field v2 wages = Some a"
    and "trim a \<noteq> []" and "\<not> test currencyRegex a"
    and "checked_field v3 wages = Some True" and "amount_field v3 wages = Some ''1,500.00''"
    and "test currencyRegex (totalMonthlyIncome v3)"
    and "\<forall>src. src \<noteq> wages \<longrightarrow> checked_field v3 src \<noteq> Some True"
  shows "([Key ''wages_amount''], Msg ''Amount for wages is required.'')
            \<in> set (fst (financial_submit v1)) \<and> snd (financial_submit v1) = []
       \<and> ([Key ''wages_amount''], Msg ''Must be a valid currency amount.'')
            \<in> set (fst (financial_submit v2)) \<and> snd (financial_submit v2) = []
       \<and> test currencyRegex ''1,500.00''
       \<and> financial_submit v3 = ([], [Toast (financial_parse v3)])"
proof -
  have "source_issues (financial_parse v1) wages =
      [([Key ''wages_amount''], Msg ''Amount for wages is required.'')]"
    using source_issues_blank[of "financial_parse v1" wages] assms(1,2)
    by (simp add: financial_parse_def)
  then have one: "([Key ''wages_amount''], Msg ''Amount for wages is required.'')
            \<in> set (fst (financial_submit v1)) \<and> snd (financial_submit v1) = []"
    by (rule wages_issue_blocks)
  have "source_issues (financial_parse v2) wages =
      [([Key ''wages_amount''], Msg ''Must be a valid currency amount.'')]"
    using source_issues_format[of "financial_parse v2" wages a] assms(3-6)
    by (simp add: financial_parse_def)
  then have two: "([Key ''wages_amount''], Msg ''Must be a valid currency amount.'')
            \<in> set (fst (financial_submit v2)) \<and> snd (financial_submit v2) = []"
    by (rule wages_issue_blocks)
  have "financial_errors v3 = []"
  proof (rule financial_valid)
    show "test currencyRegex (totalMonthlyIncome v3)" by (rule assms(9))
  next
    fix src assume "checked_field v3 src = Some True"
    with assms(10) have "src = wages" by blast
    with assms(8) show "\<exists>a. amount_field v3 src = Some a \<and> trim a \<noteq> [] \<and> test currencyRegex a"
      using currency_example trim_example by simp
  qed
  then have three: "financial_submit v3 = ([], [Toast (financial_parse v3)])"
    by (rule financial_submit_ok)
  from one two three currency_example show ?thesis by blast
qed

theorem financial_wages_scenario_witness:
  "checked_field (setChecked wages True (typeTotalMonthlyIncome ''2,000'' financial_defaultValues))
      wages = Some True
   \<and> blank (amount_field
        (setChecked wages True (typeTotalMonthlyIncome ''2,000'' financial_defaultValues)) wages)
   \<and> trim ''abc'' \<noteq> [] \<and> \<not> test currencyRegex ''abc''
   \<and> snd (financial_submit
        (setChecked wages True (typeTotalMonthlyIncome ''2,000'' financial_defaultValues))) = []
   \<and> snd (financial_submit (typeAmount wages ''abc''
        (setChecked wages True (typeTotalMonthlyIncome ''2,000'' financial_defaultValues)))) = []
   \<and> fst (financial_submit (typeAmount wages ''1,500.00''
        (setChecked wages True (typeTotalMonthlyIncome ''2,000'' financial_defaultValues)))) = []"
  using financial_wages_scenario
    [of "setChecked wages True (typeTotalMonthlyIncome ''2,000'' financial_defaultValues)"
        "typeAmount wages ''abc''
           (setChecked wages True (typeTotalMonthlyIncome ''2,000'' financial_defaultValues))"
        "''abc''"
        "typeAmount wages ''1,500.00''
           (setChecked wages True (typeTotalMonthlyIncome ''2,000'' financial_defaultValues))"]
    abc_not_currency trim_abc total_example
  by (simp add: setChecked_def financial_mount_def register_mount_def typeTotalMonthlyIncome_def typeAmount_def amount_visible_def
      financial_defaultValues_def blank_def)

text \<open>
  C4 as stated fails on a non-empty string of white space: it does not match the
  currency expression, yet the error is the required-amount error, not the format
  error, because the amount is trimmed before it is compared with the empty string.
\<close>

theorem financial_white_space_amount_counterexample:
  "'' '' \<noteq> [] \<and> \<not> test currencyRegex '' ''
   \<and> checked_field (typeAmount wages '' '' (setChecked wages True
        (typeTotalMonthlyIncome ''2,000'' financial_defaultValues))) wages = Some True
   \<and> amount_field (typeAmount wages '' '' (setChecked wages True
        (typeTotalMonthlyIncome ''2,000'' financial_defaultValues))) wages = Some '' ''
   \<and> financial_submit (typeAmount wages '' '' (setChecked wages True
        (typeTotalMonthlyIncome ''2,000'' financial_defaultValues)))
       = ([([Key ''wages_amount''], Msg ''Amount for wages is required.'')], [])"
  using trim_space space_not_currency total_example currency_not_empty
  by (simp add: financial_submit_def handleSubmit_def financial_resolve_def financial_errors_def
      financial_superRefine_def incomeSources_def source_issues_def financial_parse_def
      totalMonthlyIncome_errors_def
      setChecked_def financial_mount_def register_mount_def typeTotalMonthlyIncome_def typeAmount_def amount_visible_def
      financial_defaultValues_def)

subsection \<open>How many entries a list may have\<close>

text \<open>
  C5, as the code has it. In the children step, and only there, the list has a maximum:
  with five entries the add control is disabled and a click on it leaves the list at
  five entries, while the add controls of the criminal-history and health steps always
  add an entry. A minimum is enforced elsewhere: the health step shows no Remove control
  on the only entry of a visible chronic illness list, and the criminal-history submit
  refuses an empty list of charges under \<^verbatim>\<open>'Yes'\<close>.
\<close>

theorem entry_count_limits:
  assumes "length (children d) = 5"
    and "hasChronicIllness dh"
    and "hasChronicIllness dm" and "length (chronicIllnesses dm) = 1"
    and "hasCriminalOffense de = Yes" and "charges de = []"
  shows "addChild_disabled d \<and> length (children (clickAddChild d)) = 5
       \<and> length (charges (addOffense dc)) = Suc (length (charges dc))
       \<and> length (chronicIllnesses (health_step ClickAddAnother dh))
           = Suc (length (chronicIllnesses dh))
       \<and> \<not> remove_rendered dm i \<and> health_step (ClickRemove i) dm = dm
       \<and> snd (criminal_submit de) = [Alert criminal_alert]"
proof (intro conjI)
  show "addChild_disabled d" and "length (children (clickAddChild d)) = 5"
    using assms(1) by (simp_all add: addChild_disabled_def clickAddChild_def)
  show "length (charges (addOffense dc)) = Suc (length (charges dc))"
    by (simp add: addOffense_def append_field_def)
  show "length (chronicIllnesses (health_step ClickAddAnother dh))
           = Suc (length (chronicIllnesses dh))"
    using assms(2) by (simp add: health_step_def autoAppend_def append_field_def)
  show r: "\<not> remove_rendered dm i"
    using assms(4) by (simp add: remove_rendered_def)
  have "chronicIllnesses dm \<noteq> []" using assms(4) by auto
  with r show "health_step (ClickRemove i) dm = dm"
    by (simp add: health_step_def autoAppend_def)
  show "snd (criminal_submit de) = [Alert criminal_alert]"
    using assms(5,6)
    by (simp add: criminal_submit_def handleSubmit_def criminal_resolve_def
        criminal_errors_def indexed_Nil criminal_onSubmit_def)
qed

theorem entry_count_limits_witness:
  "length (children \<lparr>children = [newChild, newChild, newChild, newChild, newChild]\<rparr>) = 5
   \<and> addChild_disabled \<lparr>children = [newChild, newChild, newChild, newChild, newChild]\<rparr>
   \<and> length (children (clickAddChild
        \<lparr>children = [newChild, newChild, newChild, newChild, newChild]\<rparr>)) = 5
   \<and> length (chronicIllnesses (health_step ClickAddAnother
        (health_step (ChooseChronicIllness True) health_defaultValues))) = 2
   \<and> health_step (ClickRemove 0) (health_step (ChooseChronicIllness True) health_defaultValues)
       = health_step (ChooseChronicIllness True) health_defaultValues
   \<and> snd (criminal_submit (setHasCriminalOffense Yes (criminal_defaultValues no_data)))
       = [Alert criminal_alert]"
proof -
  let ?d = "\<lparr>children = [newChild, newChild, newChild, newChild, newChild]\<rparr>"
  let ?dh = "health_step (ChooseChronicIllness True) health_defaultValues"
  let ?de = "setHasCriminalOffense Yes (criminal_defaultValues no_data)"
  have h1: "length (children ?d) = 5" by simp
  have l: "chronicIllnesses ?dh = [newIllness]"
    by (simp add: health_step_def autoAppend_def append_field_def health_defaultValues_def)
  have h2: "hasChronicIllness ?dh"
    by (simp add: health_step_def autoAppend_def)
  have h4: "length (chronicIllnesses ?dh) = 1" using l by simp
  have h5: "hasCriminalOffense ?de = Yes" and h6: "charges ?de = []"
    by (simp_all add: setHasCriminalOffense_def criminal_defaultValues_def no_data_def)
  from entry_count_limits[OF h1 h2 h2 h4 h5 h6, where i = 0] h1 h4 l show ?thesis by simp
qed

text \<open>
  C5 as stated fails on the health step, which does enforce a minimum: once "Yes" is
  chosen the list holds one entry, appended by the effect, its Remove control is not
  rendered, and a remove at position 0 leaves the form as it is.
\<close>

theorem health_minimum_counterexample:
  "hasChronicIllness (health_step (ChooseChronicIllness True) health_defaultValues)
   \<and> chronicIllnesses (health_step (ChooseChronicIllness True) health_defaultValues)
       = [newIllness]
   \<and> \<not> remove_rendered (health_step (ChooseChronicIllness True) health_defaultValues) 0
   \<and> health_step (ClickRemove 0) (health_step (ChooseChronicIllness True) health_defaultValues)
       = health_step (ChooseChronicIllness True) health_defaultValues"
  by (simp add: health_step_def autoAppend_def append_field_def remove_rendered_def
      health_defaultValues_def)

subsection \<open>Append, remove and the numbers shown\<close>

lemma children_handle_keeps_entries:
  "e \<noteq> ClickResetChildren \<Longrightarrow> length (children d) \<le> length (children (children_handle e d))"
  by (cases e) (simp_all add: clickAddChild_def append_field_def)

text \<open>
  C6, as the code has it. On the lists themselves, \<^verbatim>\<open>append\<close> of the default entry of
  each step onto the empty list followed by \<^verbatim>\<open>remove(0)\<close> gives the empty list, and the
  criminal-history step does this through its controls: Add Offense on an empty list
  followed by Remove Charge #1 gives back the draft. The other two steps offer no such
  round trip: in the children step no control other than Reset makes the list shorter,
  and in the health step the default entry that is appended onto the empty list (by
  the effect when "Yes" is chosen, or by the add control) stays when position 0 is
  removed, because a single entry has no Remove control. In every step the number shown for
  the entry at position \<open>i\<close> is \<open>i + 1\<close>, computed from the position.
\<close>

theorem append_remove_and_indices:
  assumes "charges dc = []" and "e \<noteq> ClickResetChildren"
    and "chronicIllnesses dh = []" and "i < length xs"
    and "hasChronicIllness dp" and "chronicIllnesses dp = []"
  shows "remove 0 (append_field initialCharge []) = []
   \<and> remove 0 (append_field newChild []) = []
   \<and> remove 0 (append_field newIllness []) = []
   \<and> removeCharge 0 (addOffense dc) = dc
   \<and> length (children dk) \<le> length (children (children_handle e dk))
   \<and> chronicIllnesses (health_step (ChooseChronicIllness True) dh) = append_field newIllness []
   \<and> chronicIllnesses (health_step (ClickRemove 0) (health_step (ChooseChronicIllness True) dh))
       = [newIllness]
   \<and> chronicIllnesses (health_step (ClickRemove 0) (health_step ClickAddAnother dp))
       = [newIllness]
   \<and> length (visible_indices xs) = length xs
   \<and> visible_indices xs ! i = i + 1"
proof (intro conjI)
  show "removeCharge 0 (addOffense dc) = dc"
    using assms(1) by (simp add: removeCharge_def addOffense_def remove_append_empty)
  show "length (children dk) \<le> length (children (children_handle e dk))"
    using assms(2) by (rule children_handle_keeps_entries)
  show "chronicIllnesses (health_step (ChooseChronicIllness True) dh) = append_field newIllness []"
    using assms(3) by (simp add: health_step_def autoAppend_def)
  show "chronicIllnesses (health_step (ClickRemove 0) (health_step (ChooseChronicIllness True) dh))
       = [newIllness]"
    using assms(3)
    by (simp add: health_step_def autoAppend_def append_field_def remove_rendered_def)
  show "chronicIllnesses (health_step (ClickRemove 0) (health_step ClickAddAnother dp))
       = [newIllness]"
    using assms(5,6)
    by (simp add: health_step_def autoAppend_def append_field_def remove_rendered_def)
  show "visible_indices xs ! i = i + 1"
    using assms(4) by (rule visible_indices_nth)
qed (simp_all add: remove_append_empty length_visible_indices)

theorem append_remove_and_indices_witness:
  "charges (criminal_defaultValues no_data) = []
   \<and> ClickAddChild \<noteq> ClickResetChildren
   \<and> chronicIllnesses health_defaultValues = []
   \<and> (1::nat) < length [sample_charge, sample_charge]
   \<and> hasChronicIllness (health_handle (ChooseChronicIllness True) health_defaultValues)
   \<and> chronicIllnesses (health_handle (ChooseChronicIllness True) health_defaultValues) = []
   \<and> removeCharge 0 (addOffense (criminal_defaultValues no_data)) = criminal_defaultValues no_data
   \<and> length (children children_defaultValues)
       \<le> length (children (children_handle ClickAddChild children_defaultValues))
   \<and> chronicIllnesses (health_step (ClickRemove 0)
        (health_step (ChooseChronicIllness True) health_defaultValues)) = [newIllness]
   \<and> visible_indices [sample_charge, sample_charge] ! 1 = 2"
proof -
  have c: "charges (criminal_defaultValues no_data) = []"
    by (simp add: criminal_defaultValues_def no_data_def)
  have e: "ClickAddChild \<noteq> ClickResetChildren"
    by simp
  have h: "chronicIllnesses health_defaultValues = []"
    by (simp add: health_defaultValues_def)
  have l: "(1::nat) < length [sample_charge, sample_charge]"
    by simp
  have p: "hasChronicIllness (health_handle (ChooseChronicIllness True) health_defaultValues)"
    and q: "chronicIllnesses (health_handle (ChooseChronicIllness True) health_defaultValues) = []"
    by (simp_all add: health_defaultValues_def)
  from append_remove_and_indices[OF c e h l p q, of children_defaultValues] c e h p q
  show ?thesis by simp
qed

text \<open>
  C6 as stated fails in the health step: the form starts with an empty list, choosing
  "Yes" appends the default entry onto it, and after a remove at position 0 the list is
  not empty: that entry is still there.
\<close>

theorem health_append_remove_counterexample:
  "chronicIllnesses health_defaultValues = []
   \<and> chronicIllnesses (health_step (ChooseChronicIllness True) health_defaultValues)
       = append_field newIllness []
   \<and> chronicIllnesses (health_step (ClickRemove 0)
        (health_step (ChooseChronicIllness True) health_defaultValues)) \<noteq> []
   \<and> chronicIllnesses (health_step (ClickRemove 0)
        (health_step (ChooseChronicIllness True) health_defaultValues)) = [newIllness]"
  by (simp add: health_step_def autoAppend_def append_field_def remove_rendered_def
      health_defaultValues_def)

subsection \<open>Conditional blocks\<close>

text \<open>
  C7. Setting \<^verbatim>\<open>areTheyOnProbation\<close> of the entry at position \<open>i\<close> to \<^verbatim>\<open>'Yes'\<close> adds
  exactly \<open>i\<close> to the positions whose probation details are on screen, and setting it
  to \<^verbatim>\<open>'No'\<close> removes exactly \<open>i\<close>: no sibling entry's block appears or disappears.
\<close>

theorem probation_toggle_visibility:
  assumes "hasCriminalOffense d = Yes" and "i < length (charges d)"
  shows "set (probation_details_visible (setAreTheyOnProbation i Yes d))
           = insert i (set (probation_details_visible d))
       \<and> set (probation_details_visible (setAreTheyOnProbation i No d))
           = set (probation_details_visible d) - {i}"
  using assms
  by (auto simp: set_probation_details_visible setAreTheyOnProbation_def editCharge_def
      nth_list_update)

theorem probation_toggle_visibility_witness:
  "hasCriminalOffense \<lparr>hasCriminalOffense = Yes, charges = [sample_charge, sample_charge],
       isWillingToBackgroundCheck = Yes\<rparr> = Yes
   \<and> (1::nat) < length (charges \<lparr>hasCriminalOffense = Yes,
       charges = [sample_charge, sample_charge], isWillingToBackgroundCheck = Yes\<rparr>)
   \<and> set (probation_details_visible (setAreTheyOnProbation 1 Yes
        \<lparr>hasCriminalOffense = Yes, charges = [sample_charge, sample_charge],
         isWillingToBackgroundCheck = Yes\<rparr>)) = {1}
   \<and> set (probation_details_visible (setAreTheyOnProbation 1 No
        \<lparr>hasCriminalOffense = Yes, charges = [sample_charge, sample_charge],
         isWillingToBackgroundCheck = Yes\<rparr>)) = {}"
proof -
  let ?d = "\<lparr>hasCriminalOffense = Yes, charges = [sample_charge, sample_charge],
       isWillingToBackgroundCheck = Yes\<rparr>"
  have h1: "hasCriminalOffense ?d = Yes" and h2: "1 < length (charges ?d)"
    by simp_all
  have v: "probation_details_visible ?d = []"
    by (simp add: probation_details_visible_def indexed_def sample_charge_def upt_rec)
  from probation_toggle_visibility[OF h1 h2] v h1 h2 show ?thesis by simp
qed







subsection \<open>Health: the chronic illness list is never empty while shown\<close>

text \<open>
  C9. After any sequence of user events on the health form, if \<^verbatim>\<open>hasChronicIllness\<close>
  is true then the list of chronic illnesses is not empty: choosing "Yes" on an empty
  list appends one default entry, the Remove control is not rendered on a list of one
  entry, and a click on Remove never empties a visible list.
\<close>

theorem chronic_illness_list_nonempty:
  assumes "hasChronicIllness (health_run es health_defaultValues)"
    and "chronicIllnesses d0 = []"
    and "length (chronicIllnesses d1) = 1"
    and "hasChronicIllness d2" and "chronicIllnesses d2 \<noteq> []"
  shows "chronicIllnesses (health_run es health_defaultValues) \<noteq> []
   \<and> chronicIllnesses (health_step (ChooseChronicIllness True) d0) = [newIllness]
   \<and> \<not> remove_rendered d1 i
   \<and> hasChronicIllness (health_handle (ClickRemove i) d2)
   \<and> chronicIllnesses (health_handle (ClickRemove i) d2) \<noteq> []"
proof (intro conjI)
  show "chronicIllnesses (health_run es health_defaultValues) \<noteq> []"
    using assms(1) health_run_inv[of health_defaultValues es]
    by (simp add: health_defaultValues_def)
  show "chronicIllnesses (health_step (ChooseChronicIllness True) d0) = [newIllness]"
    using assms(2) by (simp add: health_step_def autoAppend_def append_field_def)
  show "\<not> remove_rendered d1 i"
    using assms(3) by (simp add: remove_rendered_def)
  show "hasChronicIllness (health_handle (ClickRemove i) d2)"
    using assms(4) by simp
  show "chronicIllnesses (health_handle (ClickRemove i) d2) \<noteq> []"
    using assms(4,5) by (rule remove_keeps_nonempty)
qed

theorem chronic_illness_list_nonempty_witness:
  "hasChronicIllness (health_run [ChooseChronicIllness True, ClickRemove 0] health_defaultValues)
   \<and> chronicIllnesses health_defaultValues = []
   \<and> length (chronicIllnesses (health_step (ChooseChronicIllness True) health_defaultValues)) = 1
   \<and> chronicIllnesses (health_run [ChooseChronicIllness True, ClickRemove 0] health_defaultValues)
       \<noteq> []
   \<and> chronicIllnesses (health_step (ChooseChronicIllness True) health_defaultValues)
       = [newIllness]
   \<and> \<not> remove_rendered (health_step (ChooseChronicIllness True) health_defaultValues) 0
   \<and> chronicIllnesses (health_handle (ClickRemove 0)
        (health_step (ChooseChronicIllness True) health_defaultValues)) \<noteq> []"
proof -
  let ?d = "health_step (ChooseChronicIllness True) health_defaultValues"
  have l: "chronicIllnesses ?d = [newIllness]"
    by (simp add: health_step_def autoAppend_def append_field_def health_defaultValues_def)
  have h: "hasChronicIllness ?d"
    by (simp add: health_step_def autoAppend_def)
  have r: "health_step (ClickRemove 0) ?d = ?d"
    using l h by (simp add: health_step_def autoAppend_def remove_rendered_def)
  have h1: "hasChronicIllness
      (health_run [ChooseChronicIllness True, ClickRemove 0] health_defaultValues)"
    using r h by simp
  have h2: "chronicIllnesses health_defaultValues = []"
    by (simp add: health_defaultValues_def)
  have h3: "length (chronicIllnesses ?d) = 1"
    using l by simp
  have h5: "chronicIllnesses ?d \<noteq> []"
    using l by simp
  from chronic_illness_list_nonempty[OF h1 h2 h3 h h5, of 0] h1 h2 h3
  show ?thesis by simp
qed

subsection \<open>Financial: the amount of an unchecked source\<close>

text \<open>
  C10. For an income source whose box is not checked, the amount is not validated: no
  error is reported on its path, the errors of the form do not depend on the amount at
  all, and the amount is in the data handed to the submit handler as it was typed.
\<close>

theorem unchecked_amount_not_validated:
  assumes "checked_field v src \<noteq> Some True"
  shows "[Key (source_name src @ ''_amount'')] \<notin> fst ` set (fst (financial_submit v))
       \<and> fst (financial_submit (v\<lparr>amount_field := (amount_field v)(src := x)\<rparr>))
           = fst (financial_submit v)
       \<and> (snd (financial_submit v) = [] \<or> snd (financial_submit v) = [Toast (financial_parse v)])
       \<and> amount_out (financial_parse v) src = amount_field v src"
proof -
  have "snd (financial_submit v) = [] \<or> snd (financial_submit v) = [Toast (financial_parse v)]"
    by (cases "financial_errors v = []") (simp_all add: financial_submit_ok financial_submit_blocked)
  moreover have "amount_out (financial_parse v) src = amount_field v src"
    by (simp add: financial_parse_def)
  ultimately show ?thesis
    using unchecked_no_error[OF assms] unchecked_amount_irrelevant[OF assms, of x]
    by (simp add: fst_financial_submit)
qed

theorem unchecked_amount_not_validated_witness:
  "checked_field (setChecked wages False (typeAmount wages ''abc'' (setChecked wages True
      (typeTotalMonthlyIncome ''2,000'' financial_defaultValues)))) wages \<noteq> Some True
   \<and> \<not> test currencyRegex ''abc''
   \<and> financial_submit (setChecked wages False (typeAmount wages ''abc'' (setChecked wages True
      (typeTotalMonthlyIncome ''2,000'' financial_defaultValues))))
     = ([], [Toast (financial_parse (setChecked wages False (typeAmount wages ''abc''
          (setChecked wages True (typeTotalMonthlyIncome ''2,000'' financial_defaultValues)))))])
   \<and> amount_out (financial_parse (setChecked wages False (typeAmount wages ''abc''
        (setChecked wages True (typeTotalMonthlyIncome ''2,000'' financial_defaultValues))))) wages
     = Some ''abc''"
proof -
  let ?v = "setChecked wages False (typeAmount wages ''abc'' (setChecked wages True
      (typeTotalMonthlyIncome ''2,000'' financial_defaultValues)))"
  have c: "checked_field ?v wages \<noteq> Some True"
    by (simp add: setChecked_def financial_mount_def register_mount_def)
  have a: "amount_field ?v wages = Some ''abc''"
    by (simp add: setChecked_def financial_mount_def register_mount_def typeAmount_def amount_visible_def)
  have t: "totalMonthlyIncome ?v = ''2,000''"
    by (simp add: setChecked_def financial_mount_def register_mount_def typeAmount_def amount_visible_def typeTotalMonthlyIncome_def)
  have n: "checked_field ?v s \<noteq> Some True" for s
    by (simp add: setChecked_def financial_mount_def register_mount_def typeAmount_def amount_visible_def typeTotalMonthlyIncome_def
        financial_defaultValues_def)
  have "financial_errors ?v = []"
  proof (rule financial_valid)
    show "test currencyRegex (totalMonthlyIncome ?v)"
      unfolding t by (rule total_example)
  next
    fix s assume "checked_field ?v s = Some True"
    with n[of s] show "\<exists>a. amount_field ?v s = Some a \<and> trim a \<noteq> [] \<and> test currencyRegex a"
      by blast
  qed
  then have s: "financial_submit ?v = ([], [Toast (financial_parse ?v)])"
    by (rule financial_submit_ok)
  from unchecked_amount_not_validated[OF c, of "Some ''abc''"] a s c abc_not_currency
  show ?thesis by simp
qed

end
